theory Spec2Isabelle
  imports
    Main
    "HOL-Library.AList"
    "HOL-Library.Char_ord"
    "HOL-Library.List_Lexorder"
    "HOL-Library.Sublist"
    "HOL-Library.Multiset"
begin

section \<open>The post repository of lib/posts.js\<close>

text \<open>
  The module reads a directory of markdown files through Node's \<open>fs\<close> and \<open>path\<close>,
  parses each file with gray-matter, converts a body with remark, and sorts with
  \<open>Array.prototype.sort\<close>. The three exported functions are embedded below as HOL
  functions of an explicit file-system snapshot. The two imported libraries are
  arguments of the functions that call them, so that every theorem about the module
  holds for any front-matter parser and any markdown converter.
\<close>

subsection \<open>JavaScript values and objects\<close>

text \<open>
  The values that occur in the module's results: strings, and objects whose properties
  are kept in insertion order.
\<close>

datatype jsval = JStr string | JObj "(string \<times> jsval) list"

type_synonym jsobj = "(string \<times> jsval) list"

text \<open>
  An object literal \<open>{ k1: v1, ..., ...src }\<close>: the properties of \<open>src\<close> are assigned one
  after the other onto the object built so far. Assigning an existing key replaces its
  value in place, a new key is appended.
\<close>

fun spread :: "jsobj \<Rightarrow> jsobj \<Rightarrow> jsobj" where
  "spread obj [] = obj"
| "spread obj ((k, v) # src) = spread (AList.update k v obj) src"

text \<open>
  The operator \<open><\<close> on two property reads. A missing property reads as \<open>undefined\<close>,
  which converts to NaN, and every comparison with NaN is false. A plain object
  converts to the string \<open>[object Object]\<close>. Two strings compare by code units,
  lexicographically; a \<open>char\<close> stands for one code unit.
\<close>

definition to_primitive :: "jsval \<Rightarrow> string" where
  "to_primitive v = (case v of JStr s \<Rightarrow> s | JObj _ \<Rightarrow> ''[object Object]'')"

fun js_lt :: "jsval option \<Rightarrow> jsval option \<Rightarrow> bool" where
  "js_lt (Some a) (Some b) = (to_primitive a < to_primitive b)"
| "js_lt _ _ = False"

text \<open>
  \<open>Array.prototype.sort(cmp)\<close> belongs to the engine, not to the module. The module runs
  on Node, whose engine V8 sorts an array with fewer than 64 elements as follows. It
  takes the run that opens the array: from the second element on, the comparator is
  asked about each element and the one before it; the run is descending when the first
  answer is negative and goes on while the answers are negative, otherwise it goes on
  while the answers are not negative. A descending run is reversed. Every element after
  the run is then inserted into it at the place that a binary search finds, where a
  negative answer of the comparator about the element and the middle of the interval
  sends the search to the left. A longer array V8 cuts into runs that it sorts in this
  way and then merges; the embedding sorts it as one run.
\<close>

fun run_more :: "('a \<Rightarrow> 'a \<Rightarrow> int) \<Rightarrow> bool \<Rightarrow> 'a \<Rightarrow> 'a list \<Rightarrow> nat" where
  "run_more cmp descending previous [] = 0"
| "run_more cmp descending previous (current # rest) =
     (let order = cmp current previous
      in if (if descending then order \<ge> 0 else order < 0) then 0
         else Suc (run_more cmp descending current rest))"

definition is_descending :: "('a \<Rightarrow> 'a \<Rightarrow> int) \<Rightarrow> 'a list \<Rightarrow> bool" where
  "is_descending cmp xs = (case xs of high # low # rest \<Rightarrow> cmp low high < 0 | _ \<Rightarrow> False)"

definition run_length :: "('a \<Rightarrow> 'a \<Rightarrow> int) \<Rightarrow> 'a list \<Rightarrow> nat" where
  "run_length cmp xs =
     (case xs of
        high # low # rest \<Rightarrow> 2 + run_more cmp (is_descending cmp xs) low rest
      | _ \<Rightarrow> length xs)"

definition count_and_make_run :: "('a \<Rightarrow> 'a \<Rightarrow> int) \<Rightarrow> 'a list \<Rightarrow> 'a list \<times> 'a list" where
  "count_and_make_run cmp xs =
     (let n = run_length cmp xs; run = take n xs
      in (if is_descending cmp xs then rev run else run, drop n xs))"

function binary_search :: "('a \<Rightarrow> 'a \<Rightarrow> int) \<Rightarrow> 'a \<Rightarrow> 'a list \<Rightarrow> nat \<Rightarrow> nat \<Rightarrow> nat" where
  "binary_search cmp pivot a left right =
     (if left < right
      then (let mid = left + (right - left) div 2
            in if cmp pivot (a ! mid) < 0 then binary_search cmp pivot a left mid
               else binary_search cmp pivot a (mid + 1) right)
      else left)"
  by pat_completeness auto
termination
  by (relation "measure (\<lambda>(cmp, pivot, a, left, right). right - left)") auto

definition binary_insert :: "('a \<Rightarrow> 'a \<Rightarrow> int) \<Rightarrow> 'a list \<Rightarrow> 'a \<Rightarrow> 'a list" where
  "binary_insert cmp run pivot =
     (let left = binary_search cmp pivot run 0 (length run)
      in take left run @ pivot # drop left run)"

definition array_sort :: "('a \<Rightarrow> 'a \<Rightarrow> int) \<Rightarrow> 'a list \<Rightarrow> 'a list" where
  "array_sort cmp xs =
     (case count_and_make_run cmp xs of (run, rest) \<Rightarrow> foldl (binary_insert cmp) run rest)"


text \<open>
  \<open>xs.map(f)\<close> where \<open>f\<close> may throw: the first exception ends the whole call.
\<close>

fun array_map :: "('a \<Rightarrow> 'e + 'b) \<Rightarrow> 'a list \<Rightarrow> 'e + 'b list" where
  "array_map f [] = Inr []"
| "array_map f (x # xs) =
     (case f x of
        Inl e \<Rightarrow> Inl e
      | Inr y \<Rightarrow> (case array_map f xs of Inl e \<Rightarrow> Inl e | Inr ys \<Rightarrow> Inr (y # ys)))"

subsection \<open>Paths and the file system\<close>

text \<open>
  Errors are values. The first three are the codes of the exceptions that \<open>fs\<close> throws;
  the last two are what the parser and the converter may throw.
\<close>

datatype error = ENOENT | ENOTDIR | EISDIR | MalformedMetadata | ConversionFailure

text \<open>
  A snapshot of the file system is a tree. A directory lists its entries in the order
  in which \<open>readdirSync\<close> reports them. The name of an entry of a real directory is
  not empty, is not \<open>.\<close> or \<open>..\<close>, and holds no slash.
\<close>

datatype node = File string | Dir "(string \<times> node) list"

text \<open>
  An absolute path in normal form is the list of its segments. \<open>path.join(dir, p)\<close>
  for such a \<open>dir\<close>: the string \<open>p\<close> is cut at every slash; empty segments and \<open>.\<close> are
  dropped, and \<open>..\<close> removes the segment before it.
\<close>

fun split_on :: "char \<Rightarrow> string \<Rightarrow> string list" where
  "split_on c [] = [[]]"
| "split_on c (x # xs) =
     (if x = c then [] # split_on c xs
      else (case split_on c xs of [] \<Rightarrow> [[x]] | w # ws \<Rightarrow> (x # w) # ws))"

definition normalize_step :: "string list \<Rightarrow> string \<Rightarrow> string list" where
  "normalize_step acc seg =
     (if seg = [] \<or> seg = ''.'' then acc
      else if seg = ''..'' then butlast acc
      else acc @ [seg])"

definition path_join :: "string list \<Rightarrow> string \<Rightarrow> string list" where
  "path_join dir p = foldl normalize_step dir (split_on CHR ''/'' p)"

fun walk :: "node \<Rightarrow> string list \<Rightarrow> error + node" where
  "walk n [] = Inr n"
| "walk (File c) (s # ss) = Inl ENOTDIR"
| "walk (Dir es) (s # ss) =
     (case map_of es s of None \<Rightarrow> Inl ENOENT | Some n \<Rightarrow> walk n ss)"

definition readdirSync :: "node \<Rightarrow> string list \<Rightarrow> error + string list" where
  "readdirSync r p =
     (case walk r p of
        Inl e \<Rightarrow> Inl e
      | Inr (File c) \<Rightarrow> Inl ENOTDIR
      | Inr (Dir es) \<Rightarrow> Inr (map fst es))"

definition readFileSync :: "node \<Rightarrow> string list \<Rightarrow> error + string" where
  "readFileSync r p =
     (case walk r p of
        Inl e \<Rightarrow> Inl e
      | Inr (File c) \<Rightarrow> Inr c
      | Inr (Dir es) \<Rightarrow> Inl EISDIR)"

text \<open>
  What the module sees of the process: the working directory at load time and the
  file system.
\<close>

record world =
  cwd :: "string list"
  fs_root :: node

subsection \<open>The module\<close>

text \<open>The result of \<open>matter(fileContents)\<close>: the body and the parsed front matter.\<close>

record matter_result =
  content :: string
  data :: jsobj

type_synonym matter_fn = "string \<Rightarrow> error + matter_result"

type_synonym remark_fn = "string \<Rightarrow> error + string"

text \<open>\<open>const postsDirectory = path.join(process.cwd(), "posts")\<close>\<close>

definition postsDirectory :: "world \<Rightarrow> string list" where
  "postsDirectory w = path_join (cwd w) ''posts''"

text \<open>\<open>fileName.replace(/\.md$/, "")\<close>: a final \<open>.md\<close> is removed, nothing else.\<close>

definition replace_md :: "string \<Rightarrow> string" where
  "replace_md fileName =
     (if suffix ''.md'' fileName then take (length fileName - 3) fileName else fileName)"

text \<open>The callback of \<open>fileNames.map\<close> in \<open>getSortedPostsData\<close>.\<close>

definition postData :: "matter_fn \<Rightarrow> world \<Rightarrow> string \<Rightarrow> error + jsobj" where
  "postData matter w fileName =
     (let id' = replace_md fileName;
          fullPath = path_join (postsDirectory w) fileName
      in case readFileSync (fs_root w) fullPath of
           Inl e \<Rightarrow> Inl e
         | Inr fileContents \<Rightarrow>
             (case matter fileContents of
                Inl e \<Rightarrow> Inl e
              | Inr matterResult \<Rightarrow>
                  Inr (spread [(''id'', JStr id')] (data matterResult))))"

text \<open>The comparator of the sort: \<open>a.date < b.date ? 1 : -1\<close>.\<close>

definition compare_date :: "jsobj \<Rightarrow> jsobj \<Rightarrow> int" where
  "compare_date a b = (if js_lt (map_of a ''date'') (map_of b ''date'') then 1 else - 1)"

definition getSortedPostsData :: "matter_fn \<Rightarrow> world \<Rightarrow> error + jsobj list" where
  "getSortedPostsData matter w =
     (case readdirSync (fs_root w) (postsDirectory w) of
        Inl e \<Rightarrow> Inl e
      | Inr fileNames \<Rightarrow>
          (case array_map (postData matter w) fileNames of
             Inl e \<Rightarrow> Inl e
           | Inr allPostsData \<Rightarrow> Inr (array_sort compare_date allPostsData)))"

definition getAllPostIds :: "world \<Rightarrow> error + jsobj list" where
  "getAllPostIds w =
     (case readdirSync (fs_root w) (postsDirectory w) of
        Inl e \<Rightarrow> Inl e
      | Inr fileNames \<Rightarrow>
          Inr (map (\<lambda>fileName.
                 [(''params'', JObj [(''id'', JStr (replace_md fileName))])]) fileNames))"

text \<open>
  \<open>getPostData\<close> is asynchronous: \<open>Inl\<close> is the rejected promise, \<open>Inr\<close> the value the
  promise resolves to.
\<close>

definition getPostData :: "matter_fn \<Rightarrow> remark_fn \<Rightarrow> world \<Rightarrow> string \<Rightarrow> error + jsobj" where
  "getPostData matter remark w id' =
     (let fullPath = path_join (postsDirectory w) (id' @ ''.md'')
      in case readFileSync (fs_root w) fullPath of
           Inl e \<Rightarrow> Inl e
         | Inr fileContents \<Rightarrow>
             (case matter fileContents of
                Inl e \<Rightarrow> Inl e
              | Inr matterResult \<Rightarrow>
                  (case remark (content matterResult) of
                     Inl e \<Rightarrow> Inl e
                   | Inr contentHtml \<Rightarrow>
                       Inr (spread [(''id'', JStr id'), (''contentHtml'', JStr contentHtml)]
                              (data matterResult)))))"

subsection \<open>The front-matter parser\<close>

text \<open>
  Modelled from the spec: the front-matter parser \<open>matter\<close> of the package gray-matter,
  which is not among the sources. Section 6 of the spec gives the file format: a
  metadata block at the top of the file, \<open>key: value\<close> pairs one per line, closed by a
  delimiter line and followed by the markdown body; the values are scalar strings. The
  definitions up to \<open>matter_spec\<close> are this model. A value may stand between double
  quotes, which are removed.
\<close>

definition join_lines :: "string list \<Rightarrow> string" where
  "join_lines ls = (case ls of [] \<Rightarrow> [] | l # rest \<Rightarrow> l @ concat (map (\<lambda>x. CHR 0x0A # x) rest))"

definition trim_left :: "string \<Rightarrow> string" where
  "trim_left s = dropWhile (\<lambda>c. c = CHR '' '') s"

definition unquote :: "string \<Rightarrow> string" where
  "unquote s =
     (if 2 \<le> length s \<and> hd s = CHR 0x22 \<and> last s = CHR 0x22 then butlast (tl s) else s)"

definition parse_pair :: "string \<Rightarrow> (string \<times> jsval) option" where
  "parse_pair l =
     (let k = takeWhile (\<lambda>c. c \<noteq> CHR '':'') l;
          r = dropWhile (\<lambda>c. c \<noteq> CHR '':'') l
      in if k = [] \<or> r = [] then None
         else Some (k, JStr (unquote (trim_left (tl r)))))"

fun parse_pairs :: "string list \<Rightarrow> jsobj option" where
  "parse_pairs [] = Some []"
| "parse_pairs (l # ls) =
     (case parse_pair l of
        None \<Rightarrow> None
      | Some kv \<Rightarrow> (case parse_pairs ls of None \<Rightarrow> None | Some kvs \<Rightarrow> Some (kv # kvs)))"

text \<open>
  Modelled from the spec: the parser on a whole file. A file that does not open with the
  delimiter line \<open>---\<close> has no metadata and is all body. A block that is not closed, a
  line that is not a pair and a key given twice are \<open>MalformedMetadata\<close>.
\<close>

definition matter_spec :: matter_fn where
  "matter_spec s =
     (case split_on (CHR 0x0A) s of
        [] \<Rightarrow> Inr \<lparr>content = s, data = []\<rparr>
      | l # ls \<Rightarrow>
          if l \<noteq> ''---'' then Inr \<lparr>content = s, data = []\<rparr>
          else
            (case dropWhile (\<lambda>x. x \<noteq> ''---'') ls of
               [] \<Rightarrow> Inl MalformedMetadata
             | closing # body \<Rightarrow>
                 (case parse_pairs (takeWhile (\<lambda>x. x \<noteq> ''---'') ls) of
                    None \<Rightarrow> Inl MalformedMetadata
                  | Some d \<Rightarrow>
                      if distinct (map fst d)
                      then Inr \<lparr>content = join_lines body, data = d\<rparr>
                      else Inl MalformedMetadata)))"

subsection \<open>The markdown converter\<close>

text \<open>
  Modelled from the spec: the markdown converter \<open>remark().use(html).process\<close> of the
  packages remark and remark-html, which are not among the sources. The spec asks for
  a CommonMark-compatible conversion of the body to an HTML fragment. Of CommonMark,
  this model covers blank-line separated blocks, ATX headings of level 1 to 6,
  paragraphs, and emphasis between single asterisks. The definitions up to
  \<open>remark_spec\<close> are this model.
\<close>

datatype block = Heading nat string | Paragraph "string list"

definition atx_heading :: "string \<Rightarrow> (nat \<times> string) option" where
  "atx_heading l =
     (let n = length (takeWhile (\<lambda>c. c = CHR ''#'') l);
          r = drop n l
      in if 1 \<le> n \<and> n \<le> 6 \<and> (r = [] \<or> hd r = CHR '' '')
         then Some (n, trim_left r) else None)"

definition flush :: "string list \<Rightarrow> block list" where
  "flush par = (if par = [] then [] else [Paragraph par])"

fun parse_blocks :: "string list \<Rightarrow> string list \<Rightarrow> block list" where
  "parse_blocks par [] = flush par"
| "parse_blocks par (l # ls) =
     (if trim_left l = [] then flush par @ parse_blocks [] ls
      else (case atx_heading l of
              Some (n, t) \<Rightarrow> flush par @ Heading n t # parse_blocks [] ls
            | None \<Rightarrow> parse_blocks (par @ [l]) ls))"

fun inline :: "bool \<Rightarrow> string \<Rightarrow> string" where
  "inline opened [] = []"
| "inline opened (c # cs) =
     (if c \<noteq> CHR ''*'' then c # inline opened cs
      else if opened then ''</em>'' @ inline False cs
      else if CHR ''*'' \<in> set cs \<and> hd cs \<noteq> CHR '' '' \<and> hd cs \<noteq> CHR ''*''
           then ''<em>'' @ inline True cs
      else c # inline False cs)"

definition render :: "block \<Rightarrow> string" where
  "render b =
     (case b of
        Heading n t \<Rightarrow>
          ''<h'' @ [''0123456'' ! n] @ ''>'' @ inline False t @ ''</h'' @ [''0123456'' ! n] @ ''>''
      | Paragraph ls \<Rightarrow> ''<p>'' @ inline False (join_lines ls) @ ''</p>'')"

text \<open>
  Modelled from the spec: the converter on a whole body. Every block is rendered on a
  line of its own.
\<close>

definition remark_spec :: remark_fn where
  "remark_spec s =
     Inr (concat (map (\<lambda>b. render b @ [CHR 0x0A]) (parse_blocks [] (split_on (CHR 0x0A) s))))"

subsection \<open>Calls in sequence\<close>











subsection \<open>Notions used in the statements\<close>


subsection \<open>Example snapshots\<close>

definition file_of_lines :: "string list \<Rightarrow> node" where
  "file_of_lines ls = File (join_lines ls)"

definition quoted :: "string \<Rightarrow> string" where
  "quoted s = CHR 0x22 # s @ [CHR 0x22]"

text \<open>The body \<open># Title\<close>, an empty line, \<open>Some *text*.\<close>\<close>

definition title_body :: string where
  "title_body = join_lines [''# Title'', [], ''Some *text*.'']"

text \<open>
  The scenario of the spec: the posts \<open>pre-rendering.md\<close> and \<open>ssg-ssr.md\<close>, listed in
  alphabetical order. The first has the body above.
\<close>

definition pre_rendering_md :: string where
  "pre_rendering_md =
     join_lines [''---'', ''title: '' @ quoted ''SSG vs SSR'', ''date: '' @ quoted ''2020-01-01'',
                 ''---'', title_body]"

definition ssg_ssr_md :: string where
  "ssg_ssr_md =
     join_lines [''---'', ''title: '' @ quoted ''Pre-rendering'', ''date: '' @ quoted ''2020-01-02'',
                 ''---'', ''Two forms of pre-rendering.'']"

definition blog_entries :: "(string \<times> node) list" where
  "blog_entries = [(''pre-rendering.md'', File pre_rendering_md), (''ssg-ssr.md'', File ssg_ssr_md)]"

definition blog_posts :: node where
  "blog_posts = Dir blog_entries"

definition blog_world :: world where
  "blog_world = \<lparr>cwd = [''app''], fs_root = Dir [(''app'', Dir [(''posts'', blog_posts)])]\<rparr>"

text \<open>A posts directory that holds a file whose name does not end in \<open>.md\<close>.\<close>

definition notes_world :: world where
  "notes_world =
     \<lparr>cwd = [''app''],
      fs_root = Dir [(''app'', Dir [(''posts'', Dir
        [(''notes.txt'', file_of_lines
            [''---'', ''title: Notes'', ''date: 2020-03-01'', ''---'', ''To do.''])])])]\<rparr>"

text \<open>A markdown file beside the posts directory, not in it.\<close>

definition traversal_world :: world where
  "traversal_world =
     \<lparr>cwd = [''app''],
      fs_root = Dir [(''app'', Dir
        [(''posts'', Dir [(''hello.md'', File ''Hello.'')]),
         (''secret.md'', File ''Keep out.'')])]\<rparr>"

text \<open>A post whose front matter declares the keys \<open>id\<close> and \<open>contentHtml\<close>.\<close>

definition hello_md :: string where
  "hello_md =
     join_lines [''---'', ''title: Hello'', ''date: 2020-02-02'', ''id: custom'',
                 ''contentHtml: injected'', ''---'', ''Hello *there*.'']"

definition override_world :: world where
  "override_world =
     \<lparr>cwd = [''app''],
      fs_root = Dir [(''app'', Dir [(''posts'', Dir [(''hello.md'', File hello_md)])])]\<rparr>"


text \<open>A post with the body above whose front matter declares the key \<open>contentHtml\<close>.\<close>

definition shadow_md :: string where
  "shadow_md = join_lines [''---'', ''contentHtml: injected'', ''---'', title_body]"

definition shadow_world :: world where
  "shadow_world =
     \<lparr>cwd = [''app''],
      fs_root = Dir [(''app'', Dir [(''posts'', Dir [(''shadow.md'', File shadow_md)])])]\<rparr>"



section \<open>Properties\<close>

subsection \<open>Objects, arrays and paths\<close>

lemma spread_keys: "fst ` set (spread obj src) = fst ` set obj \<union> fst ` set src"
  by (induction obj src rule: spread.induct) (auto simp: dom_update)

lemma map_of_spread_absent:
  "k \<notin> fst ` set src \<Longrightarrow> map_of (spread obj src) k = map_of obj k"
  by (induction obj src rule: spread.induct) (auto simp: update_conv')

lemma map_of_spread_present:
  "distinct (map fst src) \<Longrightarrow> map_of src k = Some v \<Longrightarrow> map_of (spread obj src) k = Some v"
proof (induction obj src rule: spread.induct)
  case (1 obj)
  then show ?case by simp
next
  case (2 obj k' v' src)
  show ?case
  proof (cases "k' = k")
    case True
    with 2 have "v' = v" and "k \<notin> fst ` set src" by auto
    then show ?thesis using True
      by (simp add: map_of_spread_absent update_conv')
  next
    case False
    with 2 show ?thesis by simp
  qed
qed

lemma array_map_Inr_iff:
  "array_map f xs = Inr ys \<longleftrightarrow> map f xs = map Inr ys"
proof (induction xs arbitrary: ys)
  case Nil
  then show ?case by auto
next
  case (Cons x xs)
  show ?case
  proof (cases "f x")
    case (Inl e)
    then show ?thesis by (auto simp: map_eq_Cons_conv)
  next
    case (Inr y)
    show ?thesis
    proof (cases "array_map f xs")
      case (Inl e)
      with Cons [of "tl ys"] Inr show ?thesis
        by (cases ys) (auto simp: Cons)
    next
      case Inr2: (Inr zs)
      with Cons [of zs] Cons [of "tl ys"] Inr show ?thesis
        by (cases ys) auto
    qed
  qed
qed

lemma array_map_length: "array_map f xs = Inr ys \<Longrightarrow> length ys = length xs"
  using map_eq_imp_length_eq [of f xs Inr ys] by (simp add: array_map_Inr_iff)

lemma array_map_elem:
  assumes "array_map f xs = Inr ys" and "y \<in> set ys"
  shows "\<exists>x\<in>set xs. f x = Inr y"
proof -
  have "Inr y \<in> set (map f xs)" using assms by (simp add: array_map_Inr_iff)
  then show ?thesis by auto
qed

lemma array_map_image:
  assumes "array_map f xs = Inr ys" and "x \<in> set xs"
  shows "\<exists>y\<in>set ys. f x = Inr y"
proof -
  have "map f xs = map Inr ys" using assms by (simp add: array_map_Inr_iff)
  moreover have "f x \<in> set (map f xs)" using assms by simp
  ultimately have "f x \<in> set (map Inr ys)" by simp
  then show ?thesis by auto
qed

declare binary_search.simps [simp del]

lemma mset_take_drop: "mset (take n xs) + mset (drop n xs) = mset xs"
  by (simp flip: mset_append)

lemma mset_count_and_make_run:
  assumes "count_and_make_run cmp xs = (run, rest)"
  shows "mset run + mset rest = mset xs"
proof -
  from assms have "mset run = mset (take (run_length cmp xs) xs)"
    and "rest = drop (run_length cmp xs) xs"
    by (auto simp: count_and_make_run_def Let_def split: if_splits)
  then show ?thesis
    by (simp only: mset_take_drop)
qed

lemma mset_binary_insert: "mset (binary_insert cmp run pivot) = add_mset pivot (mset run)"
  using mset_take_drop [of "binary_search cmp pivot run 0 (length run)" run]
  by (simp add: binary_insert_def Let_def)

lemma mset_foldl_binary_insert:
  "mset (foldl (binary_insert cmp) run rest) = mset run + mset rest"
  by (induction rest arbitrary: run) (simp_all add: mset_binary_insert)

lemma mset_array_sort: "mset (array_sort cmp xs) = mset xs"
  by (auto simp: array_sort_def mset_foldl_binary_insert mset_count_and_make_run split: prod.splits)

lemma set_array_sort: "set (array_sort cmp xs) = set xs"
  using mset_array_sort [of cmp xs] by (rule mset_eq_setD)

lemma length_array_sort: "length (array_sort cmp xs) = length xs"
  using mset_array_sort [of cmp xs] by (rule mset_eq_length)

lemma split_on_no_sep: "c \<notin> set s \<Longrightarrow> split_on c s = [s]"
  by (induction s) auto

lemma path_join_segment:
  "CHR ''/'' \<notin> set s \<Longrightarrow> s \<noteq> [] \<Longrightarrow> s \<noteq> ''.'' \<Longrightarrow> s \<noteq> ''..'' \<Longrightarrow> path_join d s = d @ [s]"
  by (simp add: path_join_def split_on_no_sep normalize_step_def)

lemma path_join_md: "CHR ''/'' \<notin> set i \<Longrightarrow> path_join d (i @ ''.md'') = d @ [i @ ''.md'']"
  by (rule path_join_segment) (auto simp: append_eq_Cons_conv)

lemma walk_append:
  "walk r (p @ q) = (case walk r p of Inl e \<Rightarrow> Inl e | Inr n \<Rightarrow> walk n q)"
  by (induction r p rule: walk.induct) (auto split: option.splits)

lemma readdirSync_Inr:
  "readdirSync r p = Inr names \<longleftrightarrow> (\<exists>es. walk r p = Inr (Dir es) \<and> names = map fst es)"
  by (auto simp: readdirSync_def split: sum.splits node.splits)

lemma readFileSync_entry:
  "walk r p = Inr (Dir es) \<Longrightarrow>
   readFileSync r (p @ [s]) =
     (case map_of es s of None \<Rightarrow> Inl ENOENT | Some (File c) \<Rightarrow> Inr c | Some (Dir ds) \<Rightarrow> Inl EISDIR)"
  by (simp add: readFileSync_def walk_append split: option.splits node.splits)

lemma replace_md_append: "replace_md (i @ ''.md'') = i"
proof -
  have "suffix ''.md'' (i @ ''.md'')"
    by (rule suffixI [OF refl])
  then show ?thesis
    by (simp add: replace_md_def)
qed

subsection \<open>Sorting by date\<close>



lemma run_more_le: "run_more cmp d p rest \<le> length rest"
  by (induction rest arbitrary: p) (auto simp: Let_def)











lemma getSortedPostsData_Inr:
  "getSortedPostsData matter w = Inr rs \<longleftrightarrow>
   (\<exists>names ps. readdirSync (fs_root w) (postsDirectory w) = Inr names \<and>
      array_map (postData matter w) names = Inr ps \<and> rs = array_sort compare_date ps)"
  by (auto simp: getSortedPostsData_def split: sum.splits)

subsection \<open>The module's functions\<close>

lemma replace_md_other: "\<not> suffix ''.md'' n \<Longrightarrow> replace_md n = n"
  by (simp add: replace_md_def)


lemma getPostData_entry:
  assumes "walk (fs_root w) (postsDirectory w) = Inr (Dir es)" and "CHR ''/'' \<notin> set i"
  shows "getPostData matter remark w i =
     (case map_of es (i @ ''.md'') of
        None \<Rightarrow> Inl ENOENT
      | Some (Dir ds) \<Rightarrow> Inl EISDIR
      | Some (File c) \<Rightarrow>
          (case matter c of
             Inl e \<Rightarrow> Inl e
           | Inr m \<Rightarrow>
               (case remark (content m) of
                  Inl e \<Rightarrow> Inl e
                | Inr h \<Rightarrow>
                    Inr (spread [(''id'', JStr i), (''contentHtml'', JStr h)] (data m)))))"
  using assms
  by (simp add: getPostData_def path_join_md readFileSync_entry
      split: option.splits node.splits)

lemma postData_Inr:
  "postData matter w n = Inr p \<longleftrightarrow>
   (\<exists>c m. readFileSync (fs_root w) (path_join (postsDirectory w) n) = Inr c \<and>
      matter c = Inr m \<and> p = spread [(''id'', JStr (replace_md n))] (data m))"
  by (auto simp: postData_def split: sum.splits)

lemma getPostData_Inr:
  "getPostData matter remark w i = Inr r \<longleftrightarrow>
   (\<exists>c m h. readFileSync (fs_root w) (path_join (postsDirectory w) (i @ ''.md'')) = Inr c \<and>
      matter c = Inr m \<and> remark (content m) = Inr h \<and>
      r = spread [(''id'', JStr i), (''contentHtml'', JStr h)] (data m))"
  by (auto simp: getPostData_def split: sum.splits)

lemma listing_record:
  assumes "getSortedPostsData matter w = Inr rs" and "r \<in> set rs"
  shows "\<exists>names n. readdirSync (fs_root w) (postsDirectory w) = Inr names \<and>
           n \<in> set names \<and> postData matter w n = Inr r"
proof -
  from assms(1) obtain names ps
    where dir: "readdirSync (fs_root w) (postsDirectory w) = Inr names"
      and ps: "array_map (postData matter w) names = Inr ps"
      and rs: "rs = array_sort compare_date ps"
    by (auto simp: getSortedPostsData_Inr)
  from assms(2) rs have "r \<in> set ps" by (simp add: set_array_sort)
  from array_map_elem [OF ps this] obtain n
    where "n \<in> set names" and "postData matter w n = Inr r" ..
  with dir show ?thesis by (intro exI conjI)
qed

lemma listing_record_of_name:
  assumes "getSortedPostsData matter w = Inr rs"
    and "readdirSync (fs_root w) (postsDirectory w) = Inr names" and "n \<in> set names"
  shows "\<exists>r\<in>set rs. postData matter w n = Inr r"
proof -
  from assms(1,2) obtain ps
    where ps: "array_map (postData matter w) names = Inr ps"
      and rs: "rs = array_sort compare_date ps"
    by (auto simp: getSortedPostsData_Inr)
  from array_map_image [OF ps assms(3)] obtain r
    where "r \<in> set ps" and "postData matter w n = Inr r" ..
  then show ?thesis using rs by (simp add: set_array_sort bexI [of _ r])
qed

lemma listing_record_file:
  assumes "getSortedPostsData matter w = Inr rs" and "r \<in> set rs"
  shows "\<exists>names n c m. readdirSync (fs_root w) (postsDirectory w) = Inr names \<and>
           n \<in> set names \<and>
           readFileSync (fs_root w) (path_join (postsDirectory w) n) = Inr c \<and>
           matter c = Inr m \<and>
           r = spread [(''id'', JStr (replace_md n))] (data m)"
proof -
  from listing_record [OF assms] obtain names n
    where dir: "readdirSync (fs_root w) (postsDirectory w) = Inr names"
      and n: "n \<in> set names" and r: "postData matter w n = Inr r"
    by (elim exE conjE)
  from r obtain c m
    where "readFileSync (fs_root w) (path_join (postsDirectory w) n) = Inr c"
      and "matter c = Inr m" and "r = spread [(''id'', JStr (replace_md n))] (data m)"
    unfolding postData_Inr by (elim exE conjE)
  with dir n show ?thesis by (intro exI conjI)
qed

lemma map_of_spread:
  assumes "distinct (map fst src)"
  shows "map_of (spread obj src) k = (case map_of src k of Some v \<Rightarrow> Some v | None \<Rightarrow> map_of obj k)"
proof (cases "map_of src k")
  case None
  then have "k \<notin> fst ` set src" by (simp add: map_of_eq_None_iff)
  then show ?thesis using None by (simp add: map_of_spread_absent)
next
  case (Some v)
  then show ?thesis using assms by (simp add: map_of_spread_present)
qed

lemma remark_spec_title_body:
  "remark_spec title_body =
     Inr ([] @ ''<h1>Title</h1>'' @ (CHR 0x0A # ''<p>Some <em>text</em>.</p>'' @ [CHR 0x0A]))"
  by code_simp

subsection \<open>Calls in sequence\<close>






section \<open>The claims\<close>

text \<open>
  C1, amended. The claim holds for the entries of the posts directory that are markdown
  posts: when the directory has an entry \<open>i.md\<close> that is a regular file, whose front
  matter parses and declares no key \<open>id\<close> and whose body converts, then \<open>getAllPostIds\<close>
  lists the identifier \<open>i\<close>, and \<open>getPostData\<close> called with \<open>i\<close> succeeds and returns a
  record whose \<open>id\<close> is \<open>i\<close>.
\<close>

theorem listed_md_post_fetches:
  assumes "walk (fs_root w) (postsDirectory w) = Inr (Dir es)"
    and "map_of es (i @ ''.md'') = Some (File c)"
    and "CHR ''/'' \<notin> set i"
    and "matter c = Inr m"
    and "''id'' \<notin> fst ` set (data m)"
    and "remark (content m) = Inr h"
  shows "\<exists>ps r. getAllPostIds w = Inr ps \<and>
           [(''params'', JObj [(''id'', JStr i)])] \<in> set ps \<and>
           getPostData matter remark w i = Inr r \<and>
           map_of r ''id'' = Some (JStr i)"
proof -
  let ?ps = "map (\<lambda>fileName. [(''params'', JObj [(''id'', JStr (replace_md fileName))])])
               (map fst es)"
  have ids: "getAllPostIds w = Inr ?ps"
    using assms(1) by (simp add: getAllPostIds_def readdirSync_def)
  have "i @ ''.md'' \<in> set (map fst es)"
    using assms(2) by (metis map_of_eq_None_iff option.distinct(1) set_map)
  then have "(\<lambda>fileName. [(''params'', JObj [(''id'', JStr (replace_md fileName))])])
      (i @ ''.md'') \<in> set ?ps"
    unfolding set_map by (rule imageI)
  then have listed: "[(''params'', JObj [(''id'', JStr i)])] \<in> set ?ps"
    by (simp only: replace_md_append)
  let ?r = "spread [(''id'', JStr i), (''contentHtml'', JStr h)] (data m)"
  have post: "getPostData matter remark w i = Inr ?r"
    using assms by (simp add: getPostData_entry)
  have "map_of ?r ''id'' = Some (JStr i)"
    using assms(5) by (simp add: map_of_spread_absent)
  with ids listed post show ?thesis by blast
qed

theorem listed_md_post_fetches_witness:
  "\<exists>ps r. getAllPostIds blog_world = Inr ps \<and>
           [(''params'', JObj [(''id'', JStr ''pre-rendering'')])] \<in> set ps \<and>
           getPostData matter_spec remark_spec blog_world ''pre-rendering'' = Inr r \<and>
           map_of r ''id'' = Some (JStr ''pre-rendering'')"
proof -
  have dir: "walk (fs_root blog_world) (postsDirectory blog_world) = Inr (Dir blog_entries)"
    by code_simp
  have entry: "map_of blog_entries (''pre-rendering'' @ ''.md'') = Some (File pre_rendering_md)"
    by (simp add: blog_entries_def)
  let ?m = "\<lparr>content = title_body,
      data = [(''title'', JStr ''SSG vs SSR''), (''date'', JStr ''2020-01-01'')]\<rparr>"
  let ?h = "''<h1>Title</h1>'' @ [CHR 0x0A] @ ''<p>Some <em>text</em>.</p>'' @ [CHR 0x0A]"
  have parsed: "matter_spec pre_rendering_md = Inr ?m"
    by code_simp
  have html: "remark_spec (content ?m) = Inr ?h"
    by code_simp
  have "CHR ''/'' \<notin> set ''pre-rendering''" and "''id'' \<notin> fst ` set (data ?m)"
    by simp_all
  then show ?thesis
    using listed_md_post_fetches [of blog_world blog_entries "''pre-rendering''"
        pre_rendering_md matter_spec ?m remark_spec ?h] dir entry parsed html
    by blast
qed

text \<open>
  As stated for every listed identifier, C1 fails: \<open>getAllPostIds\<close> lists every entry of
  the directory, and for the entry \<open>notes.txt\<close> it lists the identifier \<open>notes.txt\<close>, for
  which \<open>getPostData\<close> looks for the file \<open>notes.txt.md\<close>.
\<close>

theorem non_md_entry_counterexample:
  "getAllPostIds notes_world = Inr [[(''params'', JObj [(''id'', JStr ''notes.txt'')])]] \<and>
   getPostData matter_spec remark_spec notes_world ''notes.txt'' = Inl ENOENT"
  by code_simp




text \<open>
  C3, amended. Every element of the result of \<open>getAllPostIds\<close> is an object with the one
  key \<open>params\<close>, whose value is the route parameter \<open>{ id: identifier }\<close> of one entry of
  the directory, in the order of the directory. For a directory that holds exactly
  \<open>ssg-ssr.md\<close> and \<open>pre-rendering.md\<close> the elements are \<open>{ params: { id: "ssg-ssr" } }\<close>
  and \<open>{ params: { id: "pre-rendering" } }\<close>.
\<close>

theorem route_params_shape:
  assumes "readdirSync (fs_root w) (postsDirectory w) = Inr names"
  shows "\<exists>ps. getAllPostIds w = Inr ps \<and>
           ps = map (\<lambda>n. [(''params'', JObj [(''id'', JStr (replace_md n))])]) names \<and>
           (set names = {''ssg-ssr.md'', ''pre-rendering.md''} \<longrightarrow>
            set ps = {[(''params'', JObj [(''id'', JStr ''ssg-ssr'')])],
                      [(''params'', JObj [(''id'', JStr ''pre-rendering'')])]})"
proof -
  let ?route = "\<lambda>n. [(''params'', JObj [(''id'', JStr (replace_md n))])]"
  have ids: "getAllPostIds w = Inr (map ?route names)"
    using assms by (simp add: getAllPostIds_def)
  have a: "replace_md ''ssg-ssr.md'' = ''ssg-ssr''"
    using replace_md_append [of "''ssg-ssr''"] by simp
  have b: "replace_md ''pre-rendering.md'' = ''pre-rendering''"
    using replace_md_append [of "''pre-rendering''"] by simp
  have "set (map ?route names) =
      {[(''params'', JObj [(''id'', JStr ''ssg-ssr'')])],
       [(''params'', JObj [(''id'', JStr ''pre-rendering'')])]}"
    if "set names = {''ssg-ssr.md'', ''pre-rendering.md''}"
    by (simp only: set_map that image_insert image_empty a b)
  with ids show ?thesis by blast
qed

theorem route_params_shape_witness:
  "getAllPostIds blog_world =
     Inr [[(''params'', JObj [(''id'', JStr ''pre-rendering'')])],
          [(''params'', JObj [(''id'', JStr ''ssg-ssr'')])]] \<and>
   set [[(''params'', JObj [(''id'', JStr ''pre-rendering'')])],
        [(''params'', JObj [(''id'', JStr ''ssg-ssr'')])]] =
     {[(''params'', JObj [(''id'', JStr ''ssg-ssr'')])],
      [(''params'', JObj [(''id'', JStr ''pre-rendering'')])]}"
proof -
  have dir: "readdirSync (fs_root blog_world) (postsDirectory blog_world) =
      Inr [''pre-rendering.md'', ''ssg-ssr.md'']"
    by code_simp
  have ids: "getAllPostIds blog_world =
     Inr [[(''params'', JObj [(''id'', JStr ''pre-rendering'')])],
          [(''params'', JObj [(''id'', JStr ''ssg-ssr'')])]]"
    by code_simp
  have "set [''pre-rendering.md'', ''ssg-ssr.md''] = {''ssg-ssr.md'', ''pre-rendering.md''}"
    by auto
  with route_params_shape [OF dir] ids show ?thesis
    by auto
qed

text \<open>
  As stated, C3 fails: an element of the result is not the object \<open>{ id: identifier }\<close>
  itself.
\<close>

theorem route_params_counterexample:
  "getAllPostIds blog_world =
     Inr [[(''params'', JObj [(''id'', JStr ''pre-rendering'')])],
          [(''params'', JObj [(''id'', JStr ''ssg-ssr'')])]] \<and>
   [(''id'', JStr ''ssg-ssr'')] \<notin>
     set [[(''params'', JObj [(''id'', JStr ''pre-rendering'')])],
          [(''params'', JObj [(''id'', JStr ''ssg-ssr'')])]]"
  by code_simp

text \<open>
  C4, amended. The identifier that the three functions derive for a file is the file's
  name without a final \<open>.md\<close>; a name that does not end in \<open>.md\<close> is its own identifier.
  \<open>getAllPostIds\<close> and \<open>getSortedPostsData\<close> derive it from every name of the directory,
  and \<open>getPostData\<close> reads the file whose name is its argument followed by \<open>.md\<close>.
\<close>

theorem identifier_strips_md:
  "replace_md (i @ ''.md'') = i \<and>
   (\<not> suffix ''.md'' n \<longrightarrow> replace_md n = n) \<and>
   (getAllPostIds w = Inr ps \<longrightarrow>
      (\<exists>names. readdirSync (fs_root w) (postsDirectory w) = Inr names \<and>
         map (\<lambda>p. map_of p ''params'') ps =
         map (\<lambda>n. Some (JObj [(''id'', JStr (replace_md n))])) names)) \<and>
   (getSortedPostsData matter w = Inr rs \<longrightarrow> r \<in> set rs \<longrightarrow>
      (\<exists>names n c m. readdirSync (fs_root w) (postsDirectory w) = Inr names \<and>
         n \<in> set names \<and>
         readFileSync (fs_root w) (path_join (postsDirectory w) n) = Inr c \<and>
         matter c = Inr m \<and>
         r = spread [(''id'', JStr (replace_md n))] (data m))) \<and>
   (getPostData matter remark w i = Inr p \<longrightarrow>
      (\<exists>c m h. readFileSync (fs_root w) (path_join (postsDirectory w) (i @ ''.md'')) = Inr c \<and>
         matter c = Inr m \<and> remark (content m) = Inr h \<and>
         p = spread [(''id'', JStr i), (''contentHtml'', JStr h)] (data m)))"
proof (intro conjI impI)
  show "replace_md (i @ ''.md'') = i"
    by (rule replace_md_append)
next
  assume "\<not> suffix ''.md'' n"
  then show "replace_md n = n"
    by (rule replace_md_other)
next
  assume "getAllPostIds w = Inr ps"
  then show "\<exists>names. readdirSync (fs_root w) (postsDirectory w) = Inr names \<and>
      map (\<lambda>p. map_of p ''params'') ps =
      map (\<lambda>n. Some (JObj [(''id'', JStr (replace_md n))])) names"
    by (auto simp: getAllPostIds_def split: sum.splits)
next
  assume "getSortedPostsData matter w = Inr rs" and "r \<in> set rs"
  then show "\<exists>names n c m. readdirSync (fs_root w) (postsDirectory w) = Inr names \<and>
      n \<in> set names \<and>
      readFileSync (fs_root w) (path_join (postsDirectory w) n) = Inr c \<and>
      matter c = Inr m \<and>
      r = spread [(''id'', JStr (replace_md n))] (data m)"
    by (rule listing_record_file)
next
  assume "getPostData matter remark w i = Inr p"
  then show "\<exists>c m h. readFileSync (fs_root w) (path_join (postsDirectory w) (i @ ''.md'')) = Inr c \<and>
      matter c = Inr m \<and> remark (content m) = Inr h \<and>
      p = spread [(''id'', JStr i), (''contentHtml'', JStr h)] (data m)"
    by (simp only: getPostData_Inr)
qed

theorem identifier_strips_md_witness:
  "replace_md (''ssg-ssr'' @ ''.md'') = ''ssg-ssr'' \<and>
   replace_md ''notes.txt'' = ''notes.txt'' \<and>
   (\<exists>names. readdirSync (fs_root blog_world) (postsDirectory blog_world) = Inr names \<and>
      map (\<lambda>p. map_of p ''params'')
        [[(''params'', JObj [(''id'', JStr ''pre-rendering'')])],
         [(''params'', JObj [(''id'', JStr ''ssg-ssr'')])]] =
      map (\<lambda>n. Some (JObj [(''id'', JStr (replace_md n))])) names) \<and>
   (\<exists>names n c m. readdirSync (fs_root blog_world) (postsDirectory blog_world) = Inr names \<and>
      n \<in> set names \<and>
      readFileSync (fs_root blog_world) (path_join (postsDirectory blog_world) n) = Inr c \<and>
      matter_spec c = Inr m \<and>
      [(''id'', JStr ''ssg-ssr''), (''title'', JStr ''Pre-rendering''),
       (''date'', JStr ''2020-01-02'')] = spread [(''id'', JStr (replace_md n))] (data m)) \<and>
   (\<exists>c m h. readFileSync (fs_root blog_world)
        (path_join (postsDirectory blog_world) (''ssg-ssr'' @ ''.md'')) = Inr c \<and>
      matter_spec c = Inr m \<and> remark_spec (content m) = Inr h \<and>
      [(''id'', JStr ''ssg-ssr''),
       (''contentHtml'', JStr (''<p>Two forms of pre-rendering.</p>'' @ [CHR 0x0A])),
       (''title'', JStr ''Pre-rendering''), (''date'', JStr ''2020-01-02'')] =
      spread [(''id'', JStr ''ssg-ssr''), (''contentHtml'', JStr h)] (data m))"
proof -
  let ?ps = "[[(''params'', JObj [(''id'', JStr ''pre-rendering'')])],
              [(''params'', JObj [(''id'', JStr ''ssg-ssr'')])]]"
  let ?r = "[(''id'', JStr ''ssg-ssr''), (''title'', JStr ''Pre-rendering''),
             (''date'', JStr ''2020-01-02'')]"
  let ?rs = "[?r, [(''id'', JStr ''pre-rendering''), (''title'', JStr ''SSG vs SSR''),
                   (''date'', JStr ''2020-01-01'')]]"
  let ?p = "[(''id'', JStr ''ssg-ssr''),
             (''contentHtml'', JStr (''<p>Two forms of pre-rendering.</p>'' @ [CHR 0x0A])),
             (''title'', JStr ''Pre-rendering''), (''date'', JStr ''2020-01-02'')]"
  have other: "\<not> suffix ''.md'' ''notes.txt''"
    by code_simp
  have ids: "getAllPostIds blog_world = Inr ?ps"
    by code_simp
  have listing: "getSortedPostsData matter_spec blog_world = Inr ?rs"
    by code_simp
  have member: "?r \<in> set ?rs"
    by simp
  have post: "getPostData matter_spec remark_spec blog_world ''ssg-ssr'' = Inr ?p"
    by code_simp
  show ?thesis
    using identifier_strips_md [of "''ssg-ssr''" "''notes.txt''" blog_world ?ps
      matter_spec ?rs ?r remark_spec ?p] other ids listing member post
    by simp
qed

text \<open>
  As stated for any extension, C4 fails: the identifier of \<open>notes.txt\<close> is \<open>notes.txt\<close>,
  not \<open>notes\<close>.
\<close>

theorem extension_counterexample:
  "getSortedPostsData matter_spec notes_world =
     Inr [[(''id'', JStr ''notes.txt''), (''title'', JStr ''Notes''),
           (''date'', JStr ''2020-03-01'')]] \<and>
   replace_md ''notes.txt'' \<noteq> ''notes''"
  by code_simp

text \<open>
  C5, amended. For every identifier without a slash for which the posts directory has no
  entry \<open>identifier.md\<close>, \<open>getPostData\<close> fails with \<open>ENOENT\<close>, the not-found error of
  the file system, and returns no record.
\<close>

theorem missing_post_not_found:
  assumes "readdirSync (fs_root w) (postsDirectory w) = Inr names"
    and "i @ ''.md'' \<notin> set names"
    and "CHR ''/'' \<notin> set i"
  shows "getPostData matter remark w i = Inl ENOENT"
proof -
  from assms(1) obtain es where es: "walk (fs_root w) (postsDirectory w) = Inr (Dir es)"
    and names: "names = map fst es"
    by (auto simp: readdirSync_Inr)
  from assms(2) names have "map_of es (i @ ''.md'') = None"
    by (simp add: map_of_eq_None_iff)
  then show ?thesis
    by (simp add: getPostData_entry [OF es assms(3)])
qed

theorem missing_post_not_found_witness:
  "getPostData matter_spec remark_spec blog_world ''does-not-exist'' = Inl ENOENT"
proof -
  have dir: "readdirSync (fs_root blog_world) (postsDirectory blog_world) =
      Inr [''pre-rendering.md'', ''ssg-ssr.md'']"
    by code_simp
  show ?thesis
    by (rule missing_post_not_found [OF dir]) simp_all
qed

text \<open>
  As stated for every identifier, C5 fails: the identifier \<open>../secret\<close> names no file of
  the posts directory, and \<open>getPostData\<close> returns the file \<open>secret.md\<close> of the directory
  above.
\<close>

theorem traversal_counterexample:
  "readdirSync (fs_root traversal_world) (postsDirectory traversal_world) = Inr [''hello.md''] \<and>
   ''../secret.md'' \<notin> set [''hello.md''] \<and>
   getPostData matter_spec remark_spec traversal_world ''../secret'' =
     Inr [(''id'', JStr ''../secret''),
          (''contentHtml'', JStr (''<p>Keep out.</p>'' @ [CHR 0x0A]))]"
  by code_simp

text \<open>
  C6, amended. A record returned by \<open>getSortedPostsData\<close> is the derived \<open>id\<close> of one
  file of the directory with the front matter of that file spread over it, and it has a
  \<open>contentHtml\<close> field exactly when the front matter of that file declares a key
  \<open>contentHtml\<close>; the function adds none. Every record returned by \<open>getPostData\<close> has a
  \<open>contentHtml\<close> field.
\<close>

theorem contentHtml_presence:
  "(getSortedPostsData matter w = Inr rs \<longrightarrow> r \<in> set rs \<longrightarrow>
      (\<exists>names n c m. readdirSync (fs_root w) (postsDirectory w) = Inr names \<and>
         n \<in> set names \<and>
         readFileSync (fs_root w) (path_join (postsDirectory w) n) = Inr c \<and>
         matter c = Inr m \<and>
         r = spread [(''id'', JStr (replace_md n))] (data m) \<and>
         (''contentHtml'' \<in> fst ` set r) = (''contentHtml'' \<in> fst ` set (data m)))) \<and>
   (getPostData matter remark w i = Inr p \<longrightarrow> ''contentHtml'' \<in> fst ` set p)"
proof (intro conjI impI)
  assume "getSortedPostsData matter w = Inr rs" and "r \<in> set rs"
  from listing_record_file [OF this] obtain names n c m
    where dir: "readdirSync (fs_root w) (postsDirectory w) = Inr names"
      and n: "n \<in> set names"
      and c: "readFileSync (fs_root w) (path_join (postsDirectory w) n) = Inr c"
      and m: "matter c = Inr m"
      and r: "r = spread [(''id'', JStr (replace_md n))] (data m)"
    by (elim exE conjE)
  have "(''contentHtml'' \<in> fst ` set r) = (''contentHtml'' \<in> fst ` set (data m))"
    unfolding r spread_keys by simp
  with dir n c m r
  show "\<exists>names n c m. readdirSync (fs_root w) (postsDirectory w) = Inr names \<and>
      n \<in> set names \<and>
      readFileSync (fs_root w) (path_join (postsDirectory w) n) = Inr c \<and>
      matter c = Inr m \<and>
      r = spread [(''id'', JStr (replace_md n))] (data m) \<and>
      (''contentHtml'' \<in> fst ` set r) = (''contentHtml'' \<in> fst ` set (data m))"
    by (intro exI conjI)
next
  assume "getPostData matter remark w i = Inr p"
  then obtain c m h
    where "readFileSync (fs_root w) (path_join (postsDirectory w) (i @ ''.md'')) = Inr c"
      and "matter c = Inr m" and "remark (content m) = Inr h"
      and "p = spread [(''id'', JStr i), (''contentHtml'', JStr h)] (data m)"
    unfolding getPostData_Inr by (elim exE conjE)
  then show "''contentHtml'' \<in> fst ` set p"
    by (simp add: spread_keys)
qed

theorem contentHtml_presence_witness:
  "(\<exists>names n c m.
      readdirSync (fs_root blog_world) (postsDirectory blog_world) = Inr names \<and>
      n \<in> set names \<and>
      readFileSync (fs_root blog_world) (path_join (postsDirectory blog_world) n) = Inr c \<and>
      matter_spec c = Inr m \<and>
      [(''id'', JStr ''ssg-ssr''), (''title'', JStr ''Pre-rendering''),
       (''date'', JStr ''2020-01-02'')] = spread [(''id'', JStr (replace_md n))] (data m) \<and>
      (''contentHtml'' \<in> fst ` set [(''id'', JStr ''ssg-ssr''), (''title'', JStr ''Pre-rendering''),
         (''date'', JStr ''2020-01-02'')]) = (''contentHtml'' \<in> fst ` set (data m))) \<and>
   ''contentHtml'' \<in> fst ` set [(''id'', JStr ''ssg-ssr''),
      (''contentHtml'', JStr (''<p>Two forms of pre-rendering.</p>'' @ [CHR 0x0A])),
      (''title'', JStr ''Pre-rendering''), (''date'', JStr ''2020-01-02'')]"
proof -
  let ?r = "[(''id'', JStr ''ssg-ssr''), (''title'', JStr ''Pre-rendering''),
             (''date'', JStr ''2020-01-02'')]"
  let ?rs = "[?r, [(''id'', JStr ''pre-rendering''), (''title'', JStr ''SSG vs SSR''),
                   (''date'', JStr ''2020-01-01'')]]"
  let ?p = "[(''id'', JStr ''ssg-ssr''),
             (''contentHtml'', JStr (''<p>Two forms of pre-rendering.</p>'' @ [CHR 0x0A])),
             (''title'', JStr ''Pre-rendering''), (''date'', JStr ''2020-01-02'')]"
  have listing: "getSortedPostsData matter_spec blog_world = Inr ?rs"
    by code_simp
  have member: "?r \<in> set ?rs"
    by simp
  have post: "getPostData matter_spec remark_spec blog_world ''ssg-ssr'' = Inr ?p"
    by code_simp
  show ?thesis
    using contentHtml_presence [of matter_spec blog_world ?rs ?r remark_spec "''ssg-ssr''" ?p]
      listing member post
    by simp
qed

text \<open>
  As stated for every snapshot, the first half of C6 fails: a post whose front matter
  declares \<open>contentHtml\<close> has the field in its summary.
\<close>

theorem summary_contentHtml_counterexample:
  "getSortedPostsData matter_spec override_world =
     Inr [[(''id'', JStr ''custom''), (''title'', JStr ''Hello''), (''date'', JStr ''2020-02-02''),
           (''contentHtml'', JStr ''injected'')]] \<and>
   map_of [(''id'', JStr ''custom''), (''title'', JStr ''Hello''), (''date'', JStr ''2020-02-02''),
           (''contentHtml'', JStr ''injected'')] ''contentHtml'' = Some (JStr ''injected'')"
  by code_simp

text \<open>
  C7. The sequence returned by \<open>getSortedPostsData\<close> has as many elements as the posts
  directory has entries: no entry is left out.
\<close>

theorem listing_length:
  assumes "getSortedPostsData matter w = Inr rs"
  shows "\<exists>names. readdirSync (fs_root w) (postsDirectory w) = Inr names \<and>
           length rs = length names"
  using assms
  by (auto simp: getSortedPostsData_Inr length_array_sort array_map_length)

theorem listing_length_witness:
  "\<exists>names. readdirSync (fs_root blog_world) (postsDirectory blog_world) = Inr names \<and>
     length [[(''id'', JStr ''ssg-ssr''), (''title'', JStr ''Pre-rendering''),
              (''date'', JStr ''2020-01-02'')],
             [(''id'', JStr ''pre-rendering''), (''title'', JStr ''SSG vs SSR''),
              (''date'', JStr ''2020-01-01'')]] = length names"
proof -
  have run: "getSortedPostsData matter_spec blog_world = Inr
     [[(''id'', JStr ''ssg-ssr''), (''title'', JStr ''Pre-rendering''),
       (''date'', JStr ''2020-01-02'')],
      [(''id'', JStr ''pre-rendering''), (''title'', JStr ''SSG vs SSR''),
       (''date'', JStr ''2020-01-01'')]]"
    by code_simp
  show ?thesis
    by (rule listing_length [OF run])
qed




text \<open>
  C9, amended. For a post whose body is \<open># Title\<close>, an empty line, \<open>Some *text*.\<close>, and whose
  front matter declares no key \<open>contentHtml\<close>, the \<open>contentHtml\<close> of the record returned
  by \<open>getPostData\<close> with the converter modelled from the spec contains an \<open>h1\<close> element
  around \<open>Title\<close> and an \<open>em\<close> element around \<open>text\<close>.
\<close>

theorem title_body_html:
  assumes "readFileSync (fs_root w) (path_join (postsDirectory w) (i @ ''.md'')) = Inr c"
    and "matter c = Inr m"
    and "content m = title_body"
    and "''contentHtml'' \<notin> fst ` set (data m)"
  shows "\<exists>p h. getPostData matter remark_spec w i = Inr p \<and>
           map_of p ''contentHtml'' = Some (JStr h) \<and>
           sublist ''<h1>Title</h1>'' h \<and> sublist ''<em>text</em>'' h"
proof -
  let ?h = "''<h1>Title</h1>'' @ (CHR 0x0A # ''<p>Some <em>text</em>.</p>'' @ [CHR 0x0A])"
  let ?p = "spread [(''id'', JStr i), (''contentHtml'', JStr ?h)] (data m)"
  have html: "remark_spec (content m) = Inr ?h"
    using remark_spec_title_body assms(3) by simp
  have post: "getPostData matter remark_spec w i = Inr ?p"
    using assms(1,2) html by (simp add: getPostData_def)
  have field: "map_of ?p ''contentHtml'' = Some (JStr ?h)"
    using assms(4) by (simp add: map_of_spread_absent)
  have h1: "sublist ''<h1>Title</h1>'' ([] @ ''<h1>Title</h1>'' @ (CHR 0x0A # ''<p>Some <em>text</em>.</p>'' @ [CHR 0x0A]))"
    by (rule sublist_appendI)
  have em: "sublist ''<em>text</em>''
      ((''<h1>Title</h1>'' @ CHR 0x0A # ''<p>Some '') @ ''<em>text</em>'' @ (''.</p>'' @ [CHR 0x0A]))"
    by (rule sublist_appendI)
  from h1 have h1': "sublist ''<h1>Title</h1>'' ?h" by simp
  from em have em': "sublist ''<em>text</em>'' ?h" by simp
  from post field h1' em' show ?thesis by (intro exI conjI)
qed

theorem title_body_html_witness:
  "\<exists>p h. getPostData matter_spec remark_spec blog_world ''pre-rendering'' = Inr p \<and>
         map_of p ''contentHtml'' = Some (JStr h) \<and>
         sublist ''<h1>Title</h1>'' h \<and> sublist ''<em>text</em>'' h"
proof -
  let ?m = "\<lparr>content = title_body,
      data = [(''title'', JStr ''SSG vs SSR''), (''date'', JStr ''2020-01-01'')]\<rparr>"
  have read: "readFileSync (fs_root blog_world)
      (path_join (postsDirectory blog_world) (''pre-rendering'' @ ''.md'')) = Inr pre_rendering_md"
    by code_simp
  have parsed: "matter_spec pre_rendering_md = Inr ?m"
    by code_simp
  show ?thesis
    by (rule title_body_html [where matter = matter_spec, OF read parsed]) simp_all
qed

text \<open>
  As stated for every post with this body, C9 fails: when the front matter declares
  \<open>contentHtml\<close>, the field of the record is the front-matter value and not the
  converted body.
\<close>

theorem shadowed_body_counterexample:
  "matter_spec shadow_md = Inr \<lparr>content = title_body, data = [(''contentHtml'', JStr ''injected'')]\<rparr> \<and>
   getPostData matter_spec remark_spec shadow_world ''shadow'' =
     Inr [(''id'', JStr ''shadow''), (''contentHtml'', JStr ''injected'')] \<and>
   \<not> sublist ''<h1>Title</h1>'' ''injected''"
  by code_simp

text \<open>
  C10. The front matter is spread into the record after the derived fields. For a file
  whose front matter, an object with unique keys, has a key \<open>id\<close>, the record's \<open>id\<close> is
  the front-matter value, in the listing and in the single post; the same holds for
  \<open>contentHtml\<close> in the single post. Where the front matter omits the key, the field is
  the identifier derived from the file name, or the converted body.
\<close>

theorem front_matter_overrides:
  assumes "matter c = Inr m" and "distinct (map fst (data m))"
  shows
    "(getSortedPostsData matter w = Inr rs \<longrightarrow>
      readdirSync (fs_root w) (postsDirectory w) = Inr names \<longrightarrow> n \<in> set names \<longrightarrow>
      readFileSync (fs_root w) (path_join (postsDirectory w) n) = Inr c \<longrightarrow>
        (\<exists>r. r \<in> set rs \<and> r = spread [(''id'', JStr (replace_md n))] (data m) \<and>
           map_of r ''id'' =
             Some (case map_of (data m) ''id'' of Some v \<Rightarrow> v | None \<Rightarrow> JStr (replace_md n)))) \<and>
     (readFileSync (fs_root w) (path_join (postsDirectory w) (i @ ''.md'')) = Inr c \<longrightarrow>
      remark (content m) = Inr h \<longrightarrow>
        (\<exists>p. getPostData matter remark w i = Inr p \<and>
           map_of p ''id'' = Some (case map_of (data m) ''id'' of Some v \<Rightarrow> v | None \<Rightarrow> JStr i) \<and>
           map_of p ''contentHtml'' =
             Some (case map_of (data m) ''contentHtml'' of Some v \<Rightarrow> v | None \<Rightarrow> JStr h)))"
proof (intro conjI impI)
  assume listing: "getSortedPostsData matter w = Inr rs"
    and dir: "readdirSync (fs_root w) (postsDirectory w) = Inr names"
    and n: "n \<in> set names"
    and c: "readFileSync (fs_root w) (path_join (postsDirectory w) n) = Inr c"
  let ?r = "spread [(''id'', JStr (replace_md n))] (data m)"
  have "postData matter w n = Inr ?r"
    using c assms(1) by (simp add: postData_def)
  moreover from listing_record_of_name [OF listing dir n]
  obtain r where "r \<in> set rs" and "postData matter w n = Inr r" ..
  ultimately have "?r \<in> set rs" by simp
  moreover have "map_of ?r ''id'' =
      Some (case map_of (data m) ''id'' of Some v \<Rightarrow> v | None \<Rightarrow> JStr (replace_md n))"
    using assms(2) by (simp add: map_of_spread split: option.splits)
  ultimately show "\<exists>r. r \<in> set rs \<and> r = spread [(''id'', JStr (replace_md n))] (data m) \<and>
      map_of r ''id'' =
        Some (case map_of (data m) ''id'' of Some v \<Rightarrow> v | None \<Rightarrow> JStr (replace_md n))"
    by (intro exI [of _ ?r] conjI refl)
next
  assume c: "readFileSync (fs_root w) (path_join (postsDirectory w) (i @ ''.md'')) = Inr c"
    and h: "remark (content m) = Inr h"
  let ?p = "spread [(''id'', JStr i), (''contentHtml'', JStr h)] (data m)"
  have post: "getPostData matter remark w i = Inr ?p"
    using c h assms(1) by (simp add: getPostData_def)
  have "map_of ?p ''id'' = Some (case map_of (data m) ''id'' of Some v \<Rightarrow> v | None \<Rightarrow> JStr i)"
    using assms(2) by (simp add: map_of_spread split: option.splits)
  moreover have "map_of ?p ''contentHtml'' =
      Some (case map_of (data m) ''contentHtml'' of Some v \<Rightarrow> v | None \<Rightarrow> JStr h)"
    using assms(2) by (simp add: map_of_spread split: option.splits)
  ultimately show "\<exists>p. getPostData matter remark w i = Inr p \<and>
      map_of p ''id'' = Some (case map_of (data m) ''id'' of Some v \<Rightarrow> v | None \<Rightarrow> JStr i) \<and>
      map_of p ''contentHtml'' =
        Some (case map_of (data m) ''contentHtml'' of Some v \<Rightarrow> v | None \<Rightarrow> JStr h)"
    using post by (intro exI [of _ ?p] conjI)
qed

theorem front_matter_overrides_witness:
  "(\<exists>r. r \<in> set [[(''id'', JStr ''custom''), (''title'', JStr ''Hello''),
                    (''date'', JStr ''2020-02-02''), (''contentHtml'', JStr ''injected'')]] \<and>
        map_of r ''id'' = Some (JStr ''custom'')) \<and>
   (\<exists>p. getPostData matter_spec remark_spec override_world ''hello'' = Inr p \<and>
        map_of p ''id'' = Some (JStr ''custom'') \<and>
        map_of p ''contentHtml'' = Some (JStr ''injected''))"
proof -
  let ?m = "\<lparr>content = ''Hello *there*.'',
      data = [(''title'', JStr ''Hello''), (''date'', JStr ''2020-02-02''),
              (''id'', JStr ''custom''), (''contentHtml'', JStr ''injected'')]\<rparr>"
  let ?rs = "[[(''id'', JStr ''custom''), (''title'', JStr ''Hello''),
               (''date'', JStr ''2020-02-02''), (''contentHtml'', JStr ''injected'')]]"
  let ?h = "''<p>Hello <em>there</em>.</p>'' @ [CHR 0x0A]"
  have parsed: "matter_spec hello_md = Inr ?m"
    by code_simp
  have keys: "distinct (map fst (data ?m))"
    by simp
  have listing: "getSortedPostsData matter_spec override_world = Inr ?rs"
    by code_simp
  have dir: "readdirSync (fs_root override_world) (postsDirectory override_world) =
      Inr [''hello.md'']"
    by code_simp
  have read: "readFileSync (fs_root override_world)
      (path_join (postsDirectory override_world) ''hello.md'') = Inr hello_md"
    by code_simp
  have html: "remark_spec (content ?m) = Inr ?h"
    by code_simp
  show ?thesis
    using front_matter_overrides [where matter = matter_spec and c = hello_md and m = ?m
        and w = override_world and rs = ?rs and names = "[''hello.md'']" and n = "''hello.md''"
        and i = "''hello''" and remark = remark_spec and h = ?h, OF parsed keys]
      listing dir read html
    by simp
qed

end
